theory Spec2Isabelle
  imports Main
begin

section \<open>The editing engine, as far as the wrappers call it\<close>

text \<open>
  Both components are adapters over a text-editing engine that is not part of the
  repository. The wrappers use four of its notions: a document, compartments whose
  content can be replaced by an effect, transactions (a change, annotations, effects)
  and the update listener that the engine calls after each dispatched transaction.
  This section fixes those notions; everything after it is translated from the two
  components.

  Strings are lists of characters, one character for one code unit of the string; a
  document is a string, and a position is an index into it. Extension values that the
  host hands in are opaque, and are taken not to change any of the notions fixed here.
\<close>

text \<open>The nine compartments the single editor creates (\<open>_editableConf\<close> ... \<open>_languageConf\<close>).\<close>

datatype compartment =
    EditableConf
  | ReadonlyConf
  | ThemeConf
  | PlaceholderConf
  | IndentWithTabConf
  | IndentUnitConf
  | LineWrappingConf
  | HighlightWhitespaceConf
  | LanguageConf

text \<open>
  Extension values. \<open>Exts []\<close> is the empty array \<open>[]\<close>; \<open>LanguageSupport n\<close> is what
  loading the language package \<open>n\<close> resolves to; \<open>Opaque n\<close> is the \<open>n\<close>-th extension value
  handed in by the host (a custom theme, an entry of \<open>extensions\<close>).
\<close>

datatype extension =
    Exts "extension list"
  | Editable bool
  | ReadOnly bool
  | OneDark
  | Placeholder string
  | KeymapIndentWithTab
  | IndentUnit string
  | LineWrapping
  | HighlightWhitespace
  | LanguageSupport nat
  | BasicSetup
  | MinimalSetup
  | UpdateListener
  | CompartmentOf compartment extension
  | Opaque nat

text \<open>
  Annotations: \<open>External\<close> is the annotation type the component file exports,
  \<open>AddToHistory\<close> is the engine's \<open>Transaction.addToHistory\<close>.
\<close>

datatype annotation = External bool | AddToHistory bool

datatype state_effect =
    CompartmentReconfigure compartment extension
  | Reconfigure "extension list"

record change_spec =
  ch_from :: nat
  ch_to :: nat
  ch_insert :: string

record transaction =
  changes :: "change_spec option"
  annotations :: "annotation list"
  effects :: "state_effect list"

record editor_state =
  doc :: string
  compartments :: "compartment \<Rightarrow> extension"
  base :: "extension list"

record view_update =
  docChanged :: bool
  transactions :: "transaction list"
  state :: editor_state

text \<open>
  Exceptions: reading a member of an absent object, a change outside the document, and
  the engine's refusal of an indent unit.
\<close>

datatype error = TypeError | RangeError | InvalidIndentUnit

text \<open>
  \<open>tr.annotation(External)\<close>: the value of the first annotation of that type, if any.
\<close>

fun annotation_External :: "annotation list \<Rightarrow> bool option" where
  "annotation_External [] = None"
| "annotation_External (External b # rest) = Some b"
| "annotation_External (AddToHistory b # rest) = annotation_External rest"

text \<open>
  The engine splits a text it is given at every line break, written as carriage return
  and line feed, as a lone carriage return or as a line feed, and a document read back
  has one line feed between two lines. So a text enters a document with each of its line
  breaks replaced by a line feed.
\<close>

fun normalize_line_breaks :: "string \<Rightarrow> string" where
  "normalize_line_breaks [] = []"
| "normalize_line_breaks [ch] = (if ch = CHR 0x0D then [CHR 0x0A] else [ch])"
| "normalize_line_breaks (ch # ch' # rest) =
     (if ch = CHR 0x0D
      then (if ch' = CHR 0x0A then CHR 0x0A # normalize_line_breaks rest
            else CHR 0x0A # normalize_line_breaks (ch' # rest))
      else ch # normalize_line_breaks (ch' # rest))"

text \<open>
  A change replaces the range from \<open>ch_from\<close> to \<open>ch_to\<close> by \<open>ch_insert\<close>; the engine
  rejects a range outside the document. A change that deletes nothing and inserts
  nothing leaves the change set empty, and only a non-empty change set counts as a
  changed document.
\<close>

definition changes_empty :: "change_spec option \<Rightarrow> bool" where
  "changes_empty chs =
     (case chs of None \<Rightarrow> True | Some ch \<Rightarrow> ch_from ch = ch_to ch \<and> ch_insert ch = [])"

definition apply_changes :: "change_spec option \<Rightarrow> string \<Rightarrow> error + string" where
  "apply_changes chs d =
     (case chs of
        None \<Rightarrow> Inr d
      | Some ch \<Rightarrow>
          if ch_from ch \<le> ch_to ch \<and> ch_to ch \<le> length d
          then Inr (take (ch_from ch) d @ normalize_line_breaks (ch_insert ch)
                    @ drop (ch_to ch) d)
          else Inl RangeError)"

fun apply_effect :: "state_effect \<Rightarrow> editor_state \<Rightarrow> editor_state" where
  "apply_effect (CompartmentReconfigure k e) s = s\<lparr>compartments := (compartments s)(k := e)\<rparr>"
| "apply_effect (Reconfigure es) s = s\<lparr>base := es\<rparr>"

text \<open>
  Dispatching a transaction on a view: the new state, and the update handed to the
  update listeners.
\<close>

definition view_dispatch :: "transaction \<Rightarrow> editor_state \<Rightarrow> error + (editor_state \<times> view_update)" where
  "view_dispatch tr s =
     (case apply_changes (changes tr) (doc s) of
        Inl e \<Rightarrow> Inl e
      | Inr d \<Rightarrow>
          (let s' = foldl (\<lambda>acc eff. apply_effect eff acc) (s\<lparr>doc := d\<rparr>) (effects tr)
           in Inr (s', \<lparr>docChanged = \<not> changes_empty (changes tr),
                        transactions = [tr], state = s'\<rparr>)))"

section \<open>The single editor: \<open>CodeEditor\<close>\<close>

text \<open>
  A theme is \<open>light\<close>, \<open>dark\<close> or an extension value of the host, given by its number.
\<close>

datatype theme = Light | Dark | ThemeExtension nat

datatype setup_level = Basic | Minimal | NoSetup

text \<open>
  A language description: its name, its aliases, and the package its \<open>load()\<close>
  resolves to.
\<close>

record language_description =
  ld_name :: string
  ld_alias :: "string list"
  ld_support :: nat

text \<open>
  Two functions of the platform that the component relies on and does not define: the
  \<open>toLowerCase\<close> method of strings, and the engine's check of an indent unit, which an
  empty unit, a unit with a character that is not white space, and a unit of different
  characters fail. The component's functions that reach one of them take the pair as
  their first argument.
\<close>

record environment =
  toLowerCase :: "string \<Rightarrow> string"
  indentUnitValid :: "string \<Rightarrow> bool"

text \<open>
  What the component does to the outside, in the order it does it: calls of the
  registered \<open>_onChange\<close> and \<open>_onTouched\<close> callbacks, emissions of the outputs
  \<open>change\<close>, \<open>focus\<close> and \<open>blur\<close>, and console output.
\<close>

datatype event =
    OnChange string
  | ChangeEmit string
  | OnTouched
  | FocusEmit
  | BlurEmit
  | ConsoleError "string list"
  | ConsoleInfo "string list"

text \<open>
  The component: its inputs (\<open>value_in\<close> is the input \<open>value\<close>, \<open>setup_in\<close> the input
  \<open>setup\<close>), the view (absent until \<open>ngOnInit\<close>), the trace of outside effects, the
  language loads that have not completed yet, whether \<open>focus()\<close> was called on the
  view, and how many views have been constructed.
\<close>

record code_editor =
  value_in :: string
  disabled :: bool
  readonly :: bool
  theme :: theme
  placeholder :: string
  indentWithTab :: bool
  indentUnit :: string
  lineWrapping :: bool
  highlightWhitespace :: bool
  languages :: "language_description list"
  language :: string
  setup_in :: setup_level
  extensions :: "nat list"
  autoFocus :: bool
  view :: "editor_state option"
  trace :: "event list"
  pending_loads :: "language_description list"
  view_focused :: bool
  views_created :: nat

text \<open>
  \<open>_updateListener\<close>: a changed document whose transactions carry no truthy
  \<open>External\<close> annotation is passed to \<open>_onChange\<close> and then emitted on \<open>change\<close>.
\<close>

definition updateListener :: "view_update \<Rightarrow> code_editor \<Rightarrow> code_editor" where
  "updateListener vu c =
     (if docChanged vu
         \<and> \<not> list_ex (\<lambda>tr. annotation_External (annotations tr) = Some True) (transactions vu)
      then (let v = doc (state vu) in c\<lparr>trace := trace c @ [OnChange v, ChangeEmit v]\<rparr>)
      else c)"

text \<open>
  \<open>this.view.dispatch(...)\<close>: reading a member of the absent view is a TypeError;
  otherwise the engine applies the transaction and calls the update listener, which
  every extension set of the component contains.
\<close>

definition dispatch :: "transaction \<Rightarrow> code_editor \<Rightarrow> error + code_editor" where
  "dispatch tr c =
     (case view c of
        None \<Rightarrow> Inl TypeError
      | Some s \<Rightarrow>
          (case view_dispatch tr s of
             Inl e \<Rightarrow> Inl e
           | Inr (s', vu) \<Rightarrow> Inr (updateListener vu (c\<lparr>view := Some s'\<rparr>))))"

text \<open>The transaction \<open>setValue\<close> builds, and \<open>setValue\<close>.\<close>

definition setValue_transaction :: "string \<Rightarrow> editor_state \<Rightarrow> transaction" where
  "setValue_transaction v s =
     \<lparr>changes = Some \<lparr>ch_from = 0, ch_to = length (doc s), ch_insert = v\<rparr>,
      annotations = [AddToHistory False],
      effects = []\<rparr>"

definition setValue :: "string \<Rightarrow> code_editor \<Rightarrow> error + code_editor" where
  "setValue v c =
     (case view c of
        None \<Rightarrow> Inl TypeError
      | Some s \<Rightarrow> dispatch (setValue_transaction v s) c)"

text \<open>\<open>_dispatchEffects\<close>, and the setters that reconfigure one compartment each.\<close>

definition dispatchEffects :: "state_effect list \<Rightarrow> code_editor \<Rightarrow> error + code_editor" where
  "dispatchEffects effs c = dispatch \<lparr>changes = None, annotations = [], effects = effs\<rparr> c"

definition setExtensions :: "extension list \<Rightarrow> code_editor \<Rightarrow> error + code_editor" where
  "setExtensions v c = dispatchEffects [Reconfigure v] c"

definition setEditable :: "bool \<Rightarrow> code_editor \<Rightarrow> error + code_editor" where
  "setEditable v c = dispatchEffects [CompartmentReconfigure EditableConf (Editable v)] c"

definition setReadonly :: "bool \<Rightarrow> code_editor \<Rightarrow> error + code_editor" where
  "setReadonly v c = dispatchEffects [CompartmentReconfigure ReadonlyConf (ReadOnly v)] c"

definition setTheme :: "theme \<Rightarrow> code_editor \<Rightarrow> error + code_editor" where
  "setTheme v c =
     dispatchEffects
       [CompartmentReconfigure ThemeConf
          (case v of Light \<Rightarrow> Exts [] | Dark \<Rightarrow> OneDark | ThemeExtension n \<Rightarrow> Opaque n)] c"

definition setPlaceholder :: "string \<Rightarrow> code_editor \<Rightarrow> error + code_editor" where
  "setPlaceholder v c =
     dispatchEffects
       [CompartmentReconfigure PlaceholderConf (if v \<noteq> [] then Placeholder v else Exts [])] c"

definition setIndentWithTab :: "bool \<Rightarrow> code_editor \<Rightarrow> error + code_editor" where
  "setIndentWithTab v c =
     dispatchEffects
       [CompartmentReconfigure IndentWithTabConf (if v then KeymapIndentWithTab else Exts [])] c"

text \<open>
  \<open>setIndentUnit\<close>: the engine computes the indent unit of the new state while it
  applies the transaction, and raises on a unit that fails its check; the view keeps the
  state it had.
\<close>

definition setIndentUnit :: "environment \<Rightarrow> string \<Rightarrow> code_editor \<Rightarrow> error + code_editor" where
  "setIndentUnit env v c =
     (case view c of
        None \<Rightarrow> Inl TypeError
      | Some s \<Rightarrow>
          if v \<noteq> [] \<and> \<not> indentUnitValid env v then Inl InvalidIndentUnit
          else dispatchEffects
                 [CompartmentReconfigure IndentUnitConf
                    (if v \<noteq> [] then IndentUnit v else Exts [])] c)"

definition setLineWrapping :: "bool \<Rightarrow> code_editor \<Rightarrow> error + code_editor" where
  "setLineWrapping v c =
     dispatchEffects
       [CompartmentReconfigure LineWrappingConf (if v then LineWrapping else Exts [])] c"

definition setHighlightWhitespace :: "bool \<Rightarrow> code_editor \<Rightarrow> error + code_editor" where
  "setHighlightWhitespace v c =
     dispatchEffects
       [CompartmentReconfigure HighlightWhitespaceConf
          (if v then HighlightWhitespace else Exts [])] c"

subsection \<open>Languages\<close>

fun join :: "string \<Rightarrow> string list \<Rightarrow> string" where
  "join sep [] = []"
| "join sep [x] = x"
| "join sep (x # y # ys) = x @ sep @ join sep (y # ys)"

text \<open>
  The two loops of \<open>_findLanguage\<close>: over the aliases of one language (its name
  first), and over the languages in the order of the \<open>languages\<close> input. The first
  match returns.
\<close>

fun alias_matches :: "environment \<Rightarrow> string \<Rightarrow> string list \<Rightarrow> bool" where
  "alias_matches env name [] = False"
| "alias_matches env name (alias # rest) =
     (if toLowerCase env name = toLowerCase env alias then True
      else alias_matches env name rest)"

fun findLanguage_loop ::
  "environment \<Rightarrow> string \<Rightarrow> language_description list \<Rightarrow> language_description option" where
  "findLanguage_loop env name [] = None"
| "findLanguage_loop env name (lang # rest) =
     (if alias_matches env name (ld_name lang # ld_alias lang) then Some lang
      else findLanguage_loop env name rest)"

definition findLanguage ::
  "environment \<Rightarrow> string \<Rightarrow> code_editor \<Rightarrow> language_description option \<times> code_editor" where
  "findLanguage env name c =
     (case findLanguage_loop env name (languages c) of
        Some lang \<Rightarrow> (Some lang, c)
      | None \<Rightarrow>
          (None,
           c\<lparr>trace := trace c @
                [ConsoleError [''Language not found:'', name],
                 ConsoleInfo [''Supported language names:'',
                              join '', '' (map ld_name (languages c))]]\<rparr>))"

text \<open>
  \<open>setLanguage\<close>. A found language is loaded asynchronously: the call only records
  the load, and \<open>language_loaded\<close> is the continuation that runs when the \<open>i\<close>-th
  recorded load resolves.
\<close>

definition setLanguage :: "environment \<Rightarrow> string \<Rightarrow> code_editor \<Rightarrow> error + code_editor" where
  "setLanguage env lang c =
     (if lang = [] \<or> lang = ''plaintext''
      then dispatchEffects [CompartmentReconfigure LanguageConf (Exts [])] c
      else if length (languages c) = 0
      then Inr (if view c \<noteq> None
                then c\<lparr>trace := trace c @
                  [ConsoleError
                     [''No supported languages. Please set the `languages` prop at first.'']]\<rparr>
                else c)
      else (case findLanguage env lang c of
              (None, c') \<Rightarrow> Inr c'
            | (Some langDesc, c') \<Rightarrow> Inr (c'\<lparr>pending_loads := pending_loads c' @ [langDesc]\<rparr>)))"

definition language_loaded :: "nat \<Rightarrow> code_editor \<Rightarrow> error + code_editor" where
  "language_loaded i c =
     (if i < length (pending_loads c)
      then dispatchEffects
             [CompartmentReconfigure LanguageConf
                (Exts [LanguageSupport (ld_support (pending_loads c ! i))])]
             (c\<lparr>pending_loads := take i (pending_loads c) @ drop (Suc i) (pending_loads c)\<rparr>)
      else Inr c)"

subsection \<open>Lifecycle hooks and the form-binding protocol\<close>

definition getAllExtensions :: "code_editor \<Rightarrow> extension list" where
  "getAllExtensions c =
     [UpdateListener,
      CompartmentOf EditableConf (Exts []),
      CompartmentOf ReadonlyConf (Exts []),
      CompartmentOf ThemeConf (Exts []),
      CompartmentOf PlaceholderConf (Exts []),
      CompartmentOf IndentWithTabConf (Exts []),
      CompartmentOf IndentUnitConf (Exts []),
      CompartmentOf LineWrappingConf (Exts []),
      CompartmentOf HighlightWhitespaceConf (Exts []),
      CompartmentOf LanguageConf (Exts []),
      (case setup_in c of Basic \<Rightarrow> BasicSetup | Minimal \<Rightarrow> MinimalSetup | NoSetup \<Rightarrow> Exts [])]
     @ map Opaque (extensions c)"

text \<open>
  \<open>EditorState.create\<close>: the document made of the given text, and each compartment of
  the extension list with the content it was given there.
\<close>

fun initial_compartments :: "extension list \<Rightarrow> compartment \<Rightarrow> extension" where
  "initial_compartments [] = (\<lambda>k. Exts [])"
| "initial_compartments (CompartmentOf k e # rest) = (initial_compartments rest)(k := e)"
| "initial_compartments (x # rest) = initial_compartments rest"

definition create_state :: "string \<Rightarrow> extension list \<Rightarrow> editor_state" where
  "create_state d es =
     \<lparr>doc = normalize_line_breaks d, compartments = initial_compartments es, base = es\<rparr>"

text \<open>Running steps in sequence; an exception ends the sequence.\<close>

fun seq :: "('s \<Rightarrow> error + 's) list \<Rightarrow> 's \<Rightarrow> error + 's" where
  "seq [] c = Inr c"
| "seq (f # fs) c = (case f c of Inl e \<Rightarrow> Inl e | Inr c' \<Rightarrow> seq fs c')"

definition when_changed :: "bool \<Rightarrow> ('s \<Rightarrow> error + 's) \<Rightarrow> 's \<Rightarrow> error + 's" where
  "when_changed b f c = (if b then f c else Inr c)"

text \<open>The keys of \<open>SimpleChanges\<close> that \<open>ngOnChanges\<close> looks at.\<close>

datatype input_name =
    In_value
  | In_disabled
  | In_readonly
  | In_theme
  | In_placeholder
  | In_indentWithTab
  | In_indentUnit
  | In_lineWrapping
  | In_highlightWhitespace
  | In_language
  | In_setup
  | In_extensions

definition ngOnChanges :: "environment \<Rightarrow> input_name set \<Rightarrow> code_editor \<Rightarrow> error + code_editor" where
  "ngOnChanges env chg c =
     (if view c = None then Inr c
      else seq
        [when_changed (In_value \<in> chg) (\<lambda>c. setValue (value_in c) c),
         when_changed (In_disabled \<in> chg) (\<lambda>c. setEditable (\<not> disabled c) c),
         when_changed (In_readonly \<in> chg) (\<lambda>c. setReadonly (readonly c) c),
         when_changed (In_theme \<in> chg) (\<lambda>c. setTheme (theme c) c),
         when_changed (In_placeholder \<in> chg) (\<lambda>c. setPlaceholder (placeholder c) c),
         when_changed (In_indentWithTab \<in> chg) (\<lambda>c. setIndentWithTab (indentWithTab c) c),
         when_changed (In_indentUnit \<in> chg) (\<lambda>c. setIndentUnit env (indentUnit c) c),
         when_changed (In_lineWrapping \<in> chg) (\<lambda>c. setLineWrapping (lineWrapping c) c),
         when_changed (In_highlightWhitespace \<in> chg)
           (\<lambda>c. setHighlightWhitespace (highlightWhitespace c) c),
         when_changed (In_language \<in> chg) (\<lambda>c. setLanguage env (language c) c),
         when_changed (In_setup \<in> chg \<or> In_extensions \<in> chg)
           (\<lambda>c. setExtensions (getAllExtensions c) c)]
        c)"

definition ngOnInit :: "environment \<Rightarrow> code_editor \<Rightarrow> error + code_editor" where
  "ngOnInit env c =
     (let s = create_state (value_in c) (getAllExtensions c);
          c1 = c\<lparr>view := Some s, views_created := Suc (views_created c)\<rparr>;
          c2 = (if autoFocus c1 then c1\<lparr>view_focused := True\<rparr> else c1)
      in seq
        [\<lambda>c. setEditable (\<not> disabled c) c,
         \<lambda>c. setReadonly (readonly c) c,
         \<lambda>c. setTheme (theme c) c,
         \<lambda>c. setPlaceholder (placeholder c) c,
         \<lambda>c. setIndentWithTab (indentWithTab c) c,
         \<lambda>c. setIndentUnit env (indentUnit c) c,
         \<lambda>c. setLineWrapping (lineWrapping c) c,
         \<lambda>c. setHighlightWhitespace (highlightWhitespace c) c,
         \<lambda>c. setLanguage env (language c) c]
        c2)"

text \<open>The listeners \<open>ngOnInit\<close> attaches to the content element.\<close>

definition on_focus :: "code_editor \<Rightarrow> code_editor" where
  "on_focus c = c\<lparr>trace := trace c @ [OnTouched, FocusEmit]\<rparr>"

definition on_blur :: "code_editor \<Rightarrow> code_editor" where
  "on_blur c = c\<lparr>trace := trace c @ [OnTouched, BlurEmit]\<rparr>"

definition writeValue :: "string \<Rightarrow> code_editor \<Rightarrow> error + code_editor" where
  "writeValue v c = (if view c \<noteq> None then setValue v c else Inr c)"

definition setDisabledState :: "bool \<Rightarrow> code_editor \<Rightarrow> error + code_editor" where
  "setDisabledState isDisabled c = setEditable (\<not> isDisabled) (c\<lparr>disabled := isDisabled\<rparr>)"

section \<open>The diff editor: \<open>DiffEditor\<close>\<close>

text \<open>
  The merge view owns two editors, \<open>a\<close> (original) and \<open>b\<close> (modified), and the
  diff options, which the component hands over as they are.
\<close>

datatype side = Side_a | Side_b

datatype orientation = A_B | B_A

datatype revert_controls = A_to_B | B_to_A

record merge_view =
  mv_a :: editor_state
  mv_b :: editor_state
  mv_orientation :: "orientation option"
  mv_revertControls :: "revert_controls option"
  mv_renderRevertControl :: "nat option"
  mv_highlightChanges :: bool
  mv_gutter :: bool
  mv_collapseUnchanged :: "(nat option \<times> nat option) option"
  mv_diffConfig :: "nat option"

datatype merge_config =
    Cfg_orientation "orientation option"
  | Cfg_revertControls "revert_controls option"
  | Cfg_renderRevertControl "nat option"
  | Cfg_highlightChanges bool
  | Cfg_gutter bool
  | Cfg_collapseUnchanged "(nat option \<times> nat option) option"
  | Cfg_diffConfig "nat option"

fun merge_reconfigure :: "merge_config \<Rightarrow> merge_view \<Rightarrow> merge_view" where
  "merge_reconfigure (Cfg_orientation v) mv = mv\<lparr>mv_orientation := v\<rparr>"
| "merge_reconfigure (Cfg_revertControls v) mv = mv\<lparr>mv_revertControls := v\<rparr>"
| "merge_reconfigure (Cfg_renderRevertControl v) mv = mv\<lparr>mv_renderRevertControl := v\<rparr>"
| "merge_reconfigure (Cfg_highlightChanges v) mv = mv\<lparr>mv_highlightChanges := v\<rparr>"
| "merge_reconfigure (Cfg_gutter v) mv = mv\<lparr>mv_gutter := v\<rparr>"
| "merge_reconfigure (Cfg_collapseUnchanged v) mv = mv\<lparr>mv_collapseUnchanged := v\<rparr>"
| "merge_reconfigure (Cfg_diffConfig v) mv = mv\<lparr>mv_diffConfig := v\<rparr>"

fun side_view :: "side \<Rightarrow> merge_view \<Rightarrow> editor_state" where
  "side_view Side_a mv = mv_a mv"
| "side_view Side_b mv = mv_b mv"

fun side_view_update :: "side \<Rightarrow> editor_state \<Rightarrow> merge_view \<Rightarrow> merge_view" where
  "side_view_update Side_a s mv = mv\<lparr>mv_a := s\<rparr>"
| "side_view_update Side_b s mv = mv\<lparr>mv_b := s\<rparr>"

text \<open>
  Outside effects of the diff editor: the protocol callback with the pair
  \<open>{original, modified}\<close>, the two change outputs, the touched callback and the focus
  and blur outputs of each side.
\<close>

datatype diff_event =
    DiffOnChange string string
  | OriginalValueChange string
  | ModifiedValueChange string
  | DiffOnTouched
  | OriginalFocus
  | OriginalBlur
  | ModifiedFocus
  | ModifiedBlur

record diff_editor =
  d_setup :: setup_level
  originalValue :: string
  originalExtensions :: "nat list"
  modifiedValue :: string
  modifiedExtensions :: "nat list"
  orientation :: "orientation option"
  revertControls :: "revert_controls option"
  renderRevertControl :: "nat option"
  highlightChanges :: bool
  gutter :: bool
  d_disabled :: bool
  collapseUnchanged :: "(nat option \<times> nat option) option"
  diffConfig :: "nat option"
  mergeView :: "merge_view option"
  d_trace :: "diff_event list"

text \<open>\<open>_updateListener(editor)\<close> of the diff editor.\<close>

definition diff_updateListener :: "side \<Rightarrow> view_update \<Rightarrow> diff_editor \<Rightarrow> diff_editor" where
  "diff_updateListener editor vu d =
     (if docChanged vu
         \<and> \<not> list_ex (\<lambda>tr. annotation_External (annotations tr) = Some True) (transactions vu)
      then (let v = doc (state vu) in
            case editor of
              Side_a \<Rightarrow>
                d\<lparr>d_trace := d_trace d @ [DiffOnChange v (modifiedValue d), OriginalValueChange v],
                  originalValue := v\<rparr>
            | Side_b \<Rightarrow>
                d\<lparr>d_trace := d_trace d @ [DiffOnChange (originalValue d) v, ModifiedValueChange v],
                  modifiedValue := v\<rparr>)
      else d)"

text \<open>
  \<open>this.mergeView?.[editor].dispatch(...)\<close>: nothing happens without a merge view;
  otherwise the side's editor applies the transaction and calls that side's listener.
\<close>

definition diff_dispatch :: "side \<Rightarrow> transaction \<Rightarrow> diff_editor \<Rightarrow> error + diff_editor" where
  "diff_dispatch editor tr d =
     (case mergeView d of
        None \<Rightarrow> Inr d
      | Some mv \<Rightarrow>
          (case view_dispatch tr (side_view editor mv) of
             Inl e \<Rightarrow> Inl e
           | Inr (s', vu) \<Rightarrow>
               Inr (diff_updateListener editor vu
                      (d\<lparr>mergeView := Some (side_view_update editor s' mv)\<rparr>))))"

definition diff_setValue_transaction :: "string \<Rightarrow> editor_state \<Rightarrow> transaction" where
  "diff_setValue_transaction v s =
     \<lparr>changes = Some \<lparr>ch_from = 0, ch_to = length (doc s), ch_insert = v\<rparr>,
      annotations = [],
      effects = []\<rparr>"

definition diff_setValue :: "side \<Rightarrow> string \<Rightarrow> diff_editor \<Rightarrow> error + diff_editor" where
  "diff_setValue editor v d =
     (case mergeView d of
        None \<Rightarrow> Inr d
      | Some mv \<Rightarrow> diff_dispatch editor (diff_setValue_transaction v (side_view editor mv)) d)"

definition diff_setEditable :: "side \<Rightarrow> bool \<Rightarrow> diff_editor \<Rightarrow> error + diff_editor" where
  "diff_setEditable editor v d =
     diff_dispatch editor
       \<lparr>changes = None, annotations = [],
        effects = [CompartmentReconfigure EditableConf (Editable v)]\<rparr> d"

text \<open>\<open>this.mergeView?.reconfigure({...})\<close> with the one option given.\<close>

definition mergeView_reconfigure :: "merge_config \<Rightarrow> diff_editor \<Rightarrow> error + diff_editor" where
  "mergeView_reconfigure cfg d =
     (case mergeView d of
        None \<Rightarrow> Inr d
      | Some mv \<Rightarrow> Inr (d\<lparr>mergeView := Some (merge_reconfigure cfg mv)\<rparr>))"

datatype diff_input_name =
    In_originalValue
  | In_modifiedValue
  | In_orientation
  | In_revertControls
  | In_renderRevertControl
  | In_highlightChanges
  | In_gutter
  | In_collapseUnchanged
  | In_diffConfig
  | In_diff_disabled

definition diff_ngOnChanges :: "diff_input_name set \<Rightarrow> diff_editor \<Rightarrow> error + diff_editor" where
  "diff_ngOnChanges chg d =
     seq
       [when_changed (In_originalValue \<in> chg) (\<lambda>d. diff_setValue Side_a (originalValue d) d),
        when_changed (In_modifiedValue \<in> chg) (\<lambda>d. diff_setValue Side_b (modifiedValue d) d),
        when_changed (In_orientation \<in> chg)
          (\<lambda>d. mergeView_reconfigure (Cfg_orientation (orientation d)) d),
        when_changed (In_revertControls \<in> chg)
          (\<lambda>d. mergeView_reconfigure (Cfg_revertControls (revertControls d)) d),
        when_changed (In_renderRevertControl \<in> chg)
          (\<lambda>d. mergeView_reconfigure (Cfg_renderRevertControl (renderRevertControl d)) d),
        when_changed (In_highlightChanges \<in> chg)
          (\<lambda>d. mergeView_reconfigure (Cfg_highlightChanges (highlightChanges d)) d),
        when_changed (In_gutter \<in> chg) (\<lambda>d. mergeView_reconfigure (Cfg_gutter (gutter d)) d),
        when_changed (In_collapseUnchanged \<in> chg)
          (\<lambda>d. mergeView_reconfigure (Cfg_collapseUnchanged (collapseUnchanged d)) d),
        when_changed (In_diffConfig \<in> chg)
          (\<lambda>d. mergeView_reconfigure (Cfg_diffConfig (diffConfig d)) d),
        when_changed (In_diff_disabled \<in> chg)
          (\<lambda>d. seq [diff_setEditable Side_a (\<not> d_disabled d),
                     diff_setEditable Side_b (\<not> d_disabled d)] d)]
       d"

definition diff_side_extensions :: "setup_level \<Rightarrow> nat list \<Rightarrow> extension list" where
  "diff_side_extensions su es =
     [UpdateListener,
      CompartmentOf EditableConf (Exts []),
      (case su of Basic \<Rightarrow> BasicSetup | Minimal \<Rightarrow> MinimalSetup | NoSetup \<Rightarrow> Exts [])]
     @ map Opaque es"

definition diff_ngOnInit :: "diff_editor \<Rightarrow> error + diff_editor" where
  "diff_ngOnInit d =
     (let mv = \<lparr>mv_a = create_state (originalValue d)
                         (diff_side_extensions (d_setup d) (originalExtensions d)),
                mv_b = create_state (modifiedValue d)
                         (diff_side_extensions (d_setup d) (modifiedExtensions d)),
                mv_orientation = orientation d,
                mv_revertControls = revertControls d,
                mv_renderRevertControl = renderRevertControl d,
                mv_highlightChanges = highlightChanges d,
                mv_gutter = gutter d,
                mv_collapseUnchanged = collapseUnchanged d,
                mv_diffConfig = diffConfig d\<rparr>;
          d1 = d\<lparr>mergeView := Some mv\<rparr>
      in seq [diff_setEditable Side_a (\<not> d_disabled d1),
              diff_setEditable Side_b (\<not> d_disabled d1)] d1)"

text \<open>
  \<open>writeValue\<close> of the diff editor; \<open>None\<close> stands for a value that is \<open>null\<close> or not
  an object.
\<close>

definition diff_writeValue :: "(string \<times> string) option \<Rightarrow> diff_editor \<Rightarrow> error + diff_editor" where
  "diff_writeValue v d =
     (case v of
        None \<Rightarrow> Inr d
      | Some (original, modified) \<Rightarrow>
          if mergeView d \<noteq> None
          then seq [diff_setValue Side_a original, diff_setValue Side_b modified]
                 (d\<lparr>originalValue := original, modifiedValue := modified\<rparr>)
          else Inr d)"

definition diff_setDisabledState :: "bool \<Rightarrow> diff_editor \<Rightarrow> error + diff_editor" where
  "diff_setDisabledState isDisabled d =
     seq [diff_setEditable Side_a (\<not> isDisabled), diff_setEditable Side_b (\<not> isDisabled)]
       (d\<lparr>d_disabled := isDisabled\<rparr>)"

text \<open>The listeners \<open>ngOnInit\<close> attaches to the content elements of the two sides.\<close>

fun diff_on_focus :: "side \<Rightarrow> diff_editor \<Rightarrow> diff_editor" where
  "diff_on_focus Side_a d = d\<lparr>d_trace := d_trace d @ [DiffOnTouched, OriginalFocus]\<rparr>"
| "diff_on_focus Side_b d = d\<lparr>d_trace := d_trace d @ [DiffOnTouched, ModifiedFocus]\<rparr>"

fun diff_on_blur :: "side \<Rightarrow> diff_editor \<Rightarrow> diff_editor" where
  "diff_on_blur Side_a d = d\<lparr>d_trace := d_trace d @ [DiffOnTouched, OriginalBlur]\<rparr>"
| "diff_on_blur Side_b d = d\<lparr>d_trace := d_trace d @ [DiffOnTouched, ModifiedBlur]\<rparr>"

section \<open>Components to evaluate on\<close>

text \<open>
  The platform on strings whose code units are below 256. \<open>toLowerCase\<close> folds the
  letters A to Z and the capital letters from 0xC0 to 0xDE (0xD7, the multiplication
  sign, is not one); no other code unit below 256 has a lower case different from
  itself. White space below 256 is the tabulator, line feed, vertical tabulator, form
  feed, carriage return, space and no-break space. An indent unit passes the engine's
  check when it is not empty, has no character that is not white space, and has no
  character different from its first.
\<close>

definition capital_letters :: string where
  "capital_letters =
     ''ABCDEFGHIJKLMNOPQRSTUVWXYZ'' @
       [CHR 0xC0, CHR 0xC1, CHR 0xC2, CHR 0xC3, CHR 0xC4, CHR 0xC5, CHR 0xC6, CHR 0xC7,
        CHR 0xC8, CHR 0xC9, CHR 0xCA, CHR 0xCB, CHR 0xCC, CHR 0xCD, CHR 0xCE, CHR 0xCF,
        CHR 0xD0, CHR 0xD1, CHR 0xD2, CHR 0xD3, CHR 0xD4, CHR 0xD5, CHR 0xD6, CHR 0xD8,
        CHR 0xD9, CHR 0xDA, CHR 0xDB, CHR 0xDC, CHR 0xDD, CHR 0xDE]"

definition small_letters :: string where
  "small_letters =
     ''abcdefghijklmnopqrstuvwxyz'' @
       [CHR 0xE0, CHR 0xE1, CHR 0xE2, CHR 0xE3, CHR 0xE4, CHR 0xE5, CHR 0xE6, CHR 0xE7,
        CHR 0xE8, CHR 0xE9, CHR 0xEA, CHR 0xEB, CHR 0xEC, CHR 0xED, CHR 0xEE, CHR 0xEF,
        CHR 0xF0, CHR 0xF1, CHR 0xF2, CHR 0xF3, CHR 0xF4, CHR 0xF5, CHR 0xF6, CHR 0xF8,
        CHR 0xF9, CHR 0xFA, CHR 0xFB, CHR 0xFC, CHR 0xFD, CHR 0xFE]"

definition toLowerCase_char :: "char \<Rightarrow> char" where
  "toLowerCase_char ch =
     (case map_of (zip capital_letters small_letters) ch of Some l \<Rightarrow> l | None \<Rightarrow> ch)"

definition white_space :: "char \<Rightarrow> bool" where
  "white_space ch =
     (ch \<in> set [CHR 0x09, CHR 0x0A, CHR 0x0B, CHR 0x0C, CHR 0x0D, CHR 0x20, CHR 0xA0])"

definition indent_unit_valid :: "string \<Rightarrow> bool" where
  "indent_unit_valid unit =
     (case unit of
        [] \<Rightarrow> False
      | ch # rest \<Rightarrow>
          \<not> list_ex (\<lambda>e. \<not> white_space e) unit \<and> \<not> list_ex (\<lambda>e. e \<noteq> ch) unit)"

definition platform :: environment where
  "platform = \<lparr>toLowerCase = map toLowerCase_char, indentUnitValid = indent_unit_valid\<rparr>"

text \<open>
  A text with a line break written as carriage return and line feed, and the same text
  with the line break as a line feed.
\<close>

definition crlf_text :: string where
  "crlf_text = [CHR ''a'', CHR 0x0D, CHR 0x0A, CHR ''b'']"

definition lf_text :: string where
  "lf_text = [CHR ''a'', CHR 0x0A, CHR ''b'']"

text \<open>
  A single editor with every input at its declared default, before \<open>ngOnInit\<close>, and
  the same editor after \<open>ngOnInit\<close>.
\<close>

definition default_editor :: code_editor where
  "default_editor =
     \<lparr>value_in = [], disabled = False, readonly = False, theme = Light, placeholder = [],
      indentWithTab = False, indentUnit = [], lineWrapping = False,
      highlightWhitespace = False, languages = [], language = [], setup_in = Basic,
      extensions = [], autoFocus = False, view = None, trace = [], pending_loads = [],
      view_focused = False, views_created = 0\<rparr>"

definition initialized_state :: editor_state where
  "initialized_state =
     \<lparr>doc = [],
      compartments = (\<lambda>k. Exts [])(EditableConf := Editable True, ReadonlyConf := ReadOnly False),
      base = getAllExtensions default_editor\<rparr>"

definition initialized_editor :: code_editor where
  "initialized_editor = default_editor\<lparr>view := Some initialized_state, views_created := 1\<rparr>"

text \<open>
  Two transactions to evaluate on: the user types \<open>x\<close> at the start of the document,
  and the same edit dispatched with the \<open>External\<close> annotation set.
\<close>

definition typed_x :: transaction where
  "typed_x = \<lparr>changes = Some \<lparr>ch_from = 0, ch_to = 0, ch_insert = ''x''\<rparr>,
              annotations = [], effects = []\<rparr>"

definition external_x :: transaction where
  "external_x = \<lparr>changes = Some \<lparr>ch_from = 0, ch_to = 0, ch_insert = ''x''\<rparr>,
                 annotations = [External True], effects = []\<rparr>"



text \<open>
  A requested name matches a language when it equals the language's name or one of
  its aliases up to letter case.
\<close>

definition language_matches :: "environment \<Rightarrow> string \<Rightarrow> language_description \<Rightarrow> bool" where
  "language_matches env name lang =
     (toLowerCase env name \<in> set (map (toLowerCase env) (ld_name lang # ld_alias lang)))"

text \<open>
  Three language descriptions (the name of the third is Ecole with an acute accent on
  its capital E, which is the code unit 0xC9), an initialized editor whose registry
  holds the first two, and the same editor once the JavaScript package is installed in
  the language compartment.
\<close>

definition javascript :: language_description where
  "javascript = \<lparr>ld_name = ''JavaScript'', ld_alias = [''js''], ld_support = 1\<rparr>"

definition python :: language_description where
  "python = \<lparr>ld_name = ''Python'', ld_alias = [''py''], ld_support = 2\<rparr>"

definition ecole :: language_description where
  "ecole = \<lparr>ld_name = CHR 0xC9 # ''cole'', ld_alias = [], ld_support = 3\<rparr>"

definition javascript_state :: editor_state where
  "javascript_state =
     initialized_state
       \<lparr>compartments := (compartments initialized_state)(LanguageConf := Exts [LanguageSupport 1])\<rparr>"

definition registry_editor :: code_editor where
  "registry_editor = initialized_editor\<lparr>languages := [python, javascript]\<rparr>"

definition javascript_editor :: code_editor where
  "javascript_editor = registry_editor\<lparr>language := ''js'', view := Some javascript_state\<rparr>"

text \<open>
  A diff editor with every input at its declared default, before \<open>ngOnInit\<close>; the
  same with the two values \<open>old\<close> and \<open>new\<close>; and the latter after \<open>ngOnInit\<close>.
\<close>

definition default_diff_editor :: diff_editor where
  "default_diff_editor =
     \<lparr>d_setup = Basic, originalValue = [], originalExtensions = [], modifiedValue = [],
      modifiedExtensions = [], orientation = None, revertControls = None,
      renderRevertControl = None, highlightChanges = True, gutter = True,
      d_disabled = False, collapseUnchanged = None, diffConfig = None, mergeView = None,
      d_trace = []\<rparr>"

definition old_new_diff_editor :: diff_editor where
  "old_new_diff_editor = default_diff_editor\<lparr>originalValue := ''old'', modifiedValue := ''new''\<rparr>"

definition initialized_side :: "string \<Rightarrow> editor_state" where
  "initialized_side d =
     \<lparr>doc = d,
      compartments = (\<lambda>k. Exts [])(EditableConf := Editable True),
      base = diff_side_extensions Basic []\<rparr>"

definition initialized_merge_view :: merge_view where
  "initialized_merge_view =
     \<lparr>mv_a = initialized_side ''old'', mv_b = initialized_side ''new'', mv_orientation = None,
      mv_revertControls = None, mv_renderRevertControl = None, mv_highlightChanges = True,
      mv_gutter = True, mv_collapseUnchanged = None, mv_diffConfig = None\<rparr>"

definition initialized_diff_editor :: diff_editor where
  "initialized_diff_editor = old_new_diff_editor\<lparr>mergeView := Some initialized_merge_view\<rparr>"

text \<open>
  Two languages with the same alias, and an initialized editor whose registry holds
  them in this order.
\<close>

definition alpha :: language_description where
  "alpha = \<lparr>ld_name = ''Alpha'', ld_alias = [''x''], ld_support = 4\<rparr>"

definition beta :: language_description where
  "beta = \<lparr>ld_name = ''Beta'', ld_alias = [''x''], ld_support = 5\<rparr>"

definition alpha_beta_editor :: code_editor where
  "alpha_beta_editor = initialized_editor\<lparr>languages := [alpha, beta]\<rparr>"

text \<open>An initialized editor whose registry holds the third language.\<close>

definition ecole_editor :: code_editor where
  "ecole_editor = initialized_editor\<lparr>languages := [ecole]\<rparr>"

section \<open>Line breaks\<close>

lemma normalize_line_breaks_Nil [simp]: "normalize_line_breaks x = [] \<longleftrightarrow> x = []"
  by (induction x rule: normalize_line_breaks.induct) simp_all

lemma normalize_line_breaks_id:
  "CHR 0x0D \<notin> set x \<Longrightarrow> normalize_line_breaks x = x"
  by (induction x rule: normalize_line_breaks.induct) auto

lemma normalize_crlf_text: "normalize_line_breaks crlf_text = lf_text"
  by (simp add: crlf_text_def lf_text_def)

section \<open>How a dispatched transaction reaches the component\<close>

lemma foldl_apply_effect_doc [simp]:
  "doc (foldl (\<lambda>acc eff. apply_effect eff acc) s effs) = doc s"
proof (induction effs arbitrary: s)
  case Nil
  show ?case by simp
next
  case (Cons eff effs)
  show ?case by (cases eff) (simp_all add: Cons.IH)
qed

lemma dispatch_effects_only:
  "view c = Some s \<Longrightarrow>
   dispatch \<lparr>changes = None, annotations = anns, effects = effs\<rparr> c =
     Inr (c\<lparr>view := Some (foldl (\<lambda>acc eff. apply_effect eff acc) s effs)\<rparr>)"
  by (simp add: dispatch_def view_dispatch_def apply_changes_def changes_empty_def
      updateListener_def Let_def)

lemma dispatchEffects_reconfigure:
  "view c = Some s \<Longrightarrow>
   dispatchEffects [CompartmentReconfigure k e] c =
     Inr (c\<lparr>view := Some (s\<lparr>compartments := (compartments s)(k := e)\<rparr>)\<rparr>)"
  by (simp add: dispatchEffects_def dispatch_effects_only)

lemma dispatch_absent: "view c = None \<Longrightarrow> dispatch tr c = Inl TypeError"
  by (simp add: dispatch_def)

lemma dispatch_edit:
  assumes "view c = Some s"
      and "apply_changes (changes tr) (doc s) = Inr d"
      and "\<not> changes_empty (changes tr)"
      and "annotation_External (annotations tr) \<noteq> Some True"
  shows "dispatch tr c =
           Inr (c\<lparr>view := Some (foldl (\<lambda>acc eff. apply_effect eff acc) (s\<lparr>doc := d\<rparr>) (effects tr)),
                  trace := trace c @ [OnChange d, ChangeEmit d]\<rparr>)"
  using assms by (simp add: dispatch_def view_dispatch_def updateListener_def Let_def)

lemma dispatch_external:
  assumes "annotation_External (annotations tr) = Some True" and "dispatch tr c = Inr c'"
  shows "trace c' = trace c"
  using assms
  by (auto simp add: dispatch_def view_dispatch_def updateListener_def Let_def
      split: option.splits sum.splits)

lemma setValue_initialized:
  "view c = Some s \<Longrightarrow>
   setValue x c =
     Inr (if doc s = [] \<and> x = [] then c\<lparr>view := Some (s\<lparr>doc := []\<rparr>)\<rparr>
          else c\<lparr>view := Some (s\<lparr>doc := normalize_line_breaks x\<rparr>),
                 trace := trace c @ [OnChange (normalize_line_breaks x),
                                     ChangeEmit (normalize_line_breaks x)]\<rparr>)"
  by (auto simp add: setValue_def setValue_transaction_def dispatch_def view_dispatch_def
      apply_changes_def changes_empty_def updateListener_def Let_def)

text \<open>\<open>ngOnInit\<close> on the default inputs yields the initialized editor.\<close>

lemma ngOnInit_default: "ngOnInit env default_editor = Inr initialized_editor"
  apply (simp add: ngOnInit_def default_editor_def Let_def setEditable_def setReadonly_def
      setTheme_def setPlaceholder_def setIndentWithTab_def setIndentUnit_def setLineWrapping_def
      setHighlightWhitespace_def setLanguage_def dispatchEffects_def dispatch_effects_only
      create_state_def getAllExtensions_def initialized_editor_def initialized_state_def)
  apply (rule ext)
  subgoal for k by (cases k) simp_all
  done

lemma view_initialized_editor: "view initialized_editor = Some initialized_state"
  by (simp add: initialized_editor_def)

lemma trace_initialized_editor: "trace initialized_editor = []"
  by (simp add: initialized_editor_def default_editor_def)

lemma doc_initialized_state: "doc initialized_state = []"
  by (simp add: initialized_state_def)

lemma dispatch_external_x:
  "dispatch external_x initialized_editor =
     Inr (initialized_editor\<lparr>view := Some (initialized_state\<lparr>doc := ''x''\<rparr>)\<rparr>)"
  by (simp add: dispatch_def view_dispatch_def updateListener_def Let_def external_x_def
      apply_changes_def changes_empty_def initialized_editor_def initialized_state_def)

section \<open>One input at a time\<close>




section \<open>The lookup of a language\<close>

lemma alias_matches_iff:
  "alias_matches env name aliases
     \<longleftrightarrow> toLowerCase env name \<in> set (map (toLowerCase env) aliases)"
  by (induction aliases) auto

lemma findLanguage_loop_find:
  "findLanguage_loop env name langs = find (language_matches env name) langs"
  by (induction langs) (simp_all add: alias_matches_iff language_matches_def)

lemma find_first_match:
  assumes "l \<in> set langs" and "P l"
  shows "\<exists>earlier found later. langs = earlier @ found # later
           \<and> (\<forall>e \<in> set earlier. \<not> P e) \<and> P found \<and> find P langs = Some found"
  using assms
proof (induction langs)
  case Nil
  then show ?case by simp
next
  case (Cons a langs)
  show ?case
  proof (cases "P a")
    case True
    then have "a # langs = [] @ a # langs \<and> (\<forall>e \<in> set []. \<not> P e) \<and> P a
        \<and> find P (a # langs) = Some a"
      by simp
    then show ?thesis by blast
  next
    case False
    with Cons.prems have "l \<in> set langs" by auto
    from Cons.IH [OF this Cons.prems(2)]
    obtain earlier found later where r: "langs = earlier @ found # later"
        "\<forall>e \<in> set earlier. \<not> P e" "P found" "find P langs = Some found"
      by blast
    from r False have "a # langs = (a # earlier) @ found # later
        \<and> (\<forall>e \<in> set (a # earlier). \<not> P e) \<and> P found \<and> find P (a # langs) = Some found"
      by simp
    then show ?thesis by blast
  qed
qed


lemma setLanguage_found:
  assumes "name \<noteq> []" and "name \<noteq> ''plaintext''"
      and "find (language_matches env name) (languages c) = Some lang"
  shows "findLanguage env name c = (Some lang, c)"
    and "setLanguage env name c = Inr (c\<lparr>pending_loads := pending_loads c @ [lang]\<rparr>)"
proof -
  show f: "findLanguage env name c = (Some lang, c)"
    using assms(3) by (simp add: findLanguage_def findLanguage_loop_find)
  have "languages c \<noteq> []"
    using assms(3) by auto
  then show "setLanguage env name c = Inr (c\<lparr>pending_loads := pending_loads c @ [lang]\<rparr>)"
    using assms(1,2) by (simp add: setLanguage_def f)
qed

lemma setLanguage_not_found:
  assumes "name \<noteq> []" and "name \<noteq> ''plaintext''" and "languages c \<noteq> []"
      and "find (language_matches env name) (languages c) = None"
  shows "setLanguage env name c =
           Inr (c\<lparr>trace := trace c @
                  [ConsoleError [''Language not found:'', name],
                   ConsoleInfo [''Supported language names:'',
                                join '', '' (map ld_name (languages c))]]\<rparr>)"
  using assms by (simp add: setLanguage_def findLanguage_def findLanguage_loop_find)

lemma setLanguage_empty_registry:
  assumes "name \<noteq> []" and "name \<noteq> ''plaintext''" and "languages c = []"
  shows "setLanguage env name c =
           Inr (if view c \<noteq> None
                then c\<lparr>trace := trace c @
                  [ConsoleError
                     [''No supported languages. Please set the `languages` prop at first.'']]\<rparr>
                else c)"
  using assms by (simp add: setLanguage_def)

lemma language_loaded_installs:
  assumes "view c = Some s" and "i < length (pending_loads c)"
  shows "language_loaded i c =
           Inr (c\<lparr>pending_loads := take i (pending_loads c) @ drop (Suc i) (pending_loads c),
                  view := Some (s\<lparr>compartments := (compartments s)
                     (LanguageConf := Exts [LanguageSupport (ld_support (pending_loads c ! i))])\<rparr>)\<rparr>)"
  using assms
  by (simp add: language_loaded_def dispatchEffects_reconfigure
        [of "c\<lparr>pending_loads := take i (pending_loads c) @ drop (Suc i) (pending_loads c)\<rparr>" s])


lemma view_registry_editor: "view registry_editor = Some initialized_state"
  by (simp add: registry_editor_def initialized_editor_def)


lemma languages_registry_editor: "languages registry_editor = [python, javascript]"
  by (simp add: registry_editor_def)

lemma languages_javascript_editor: "languages javascript_editor = [python, javascript]"
  by (simp add: javascript_editor_def registry_editor_def)

lemma pending_loads_initialized_editor: "pending_loads initialized_editor = []"
  by (simp add: initialized_editor_def default_editor_def)

lemma toLowerCase_platform: "toLowerCase platform = map toLowerCase_char"
  by (simp add: platform_def)

lemma matches_JS:
  "language_matches platform ''JS'' javascript" "\<not> language_matches platform ''JS'' python"
  by (simp_all add: language_matches_def javascript_def python_def toLowerCase_platform
      toLowerCase_char_def capital_letters_def small_letters_def)

lemma matches_rust:
  "\<not> language_matches platform ''rust'' javascript"
  "\<not> language_matches platform ''rust'' python"
  by (simp_all add: language_matches_def javascript_def python_def toLowerCase_platform
      toLowerCase_char_def capital_letters_def small_letters_def)

lemma matches_X:
  "language_matches platform ''X'' alpha" "language_matches platform ''X'' beta"
  by (simp_all add: language_matches_def alpha_def beta_def toLowerCase_platform
      toLowerCase_char_def capital_letters_def small_letters_def)

lemma matches_ecole: "language_matches platform (CHR 0xE9 # ''cole'') ecole"
  by (simp add: language_matches_def ecole_def toLowerCase_platform
      toLowerCase_char_def capital_letters_def small_letters_def)

section \<open>How a dispatched transaction reaches the diff editor\<close>

lemma diff_dispatch_effects_only:
  "mergeView d = Some mv \<Longrightarrow>
   diff_dispatch editor \<lparr>changes = None, annotations = anns, effects = effs\<rparr> d =
     Inr (d\<lparr>mergeView := Some (side_view_update editor
            (foldl (\<lambda>acc eff. apply_effect eff acc) (side_view editor mv) effs) mv)\<rparr>)"
  by (simp add: diff_dispatch_def view_dispatch_def apply_changes_def changes_empty_def
      diff_updateListener_def Let_def)

lemma diff_ngOnInit_old_new: "diff_ngOnInit old_new_diff_editor = Inr initialized_diff_editor"
  by (simp add: diff_ngOnInit_def old_new_diff_editor_def default_diff_editor_def Let_def
      diff_setEditable_def
      diff_dispatch_effects_only create_state_def diff_side_extensions_def
      initialized_diff_editor_def initialized_merge_view_def initialized_side_def)


lemma diff_dispatch_absent: "mergeView d = None \<Longrightarrow> diff_dispatch editor tr d = Inr d"
  by (simp add: diff_dispatch_def)

lemma diff_dispatch_edit:
  assumes "mergeView d = Some mv"
      and "apply_changes (changes tr) (doc (side_view editor mv)) = Inr v"
      and "\<not> changes_empty (changes tr)"
      and "annotation_External (annotations tr) \<noteq> Some True"
  shows "diff_dispatch editor tr d =
           Inr (diff_updateListener editor
                  \<lparr>docChanged = True, transactions = [tr],
                   state = foldl (\<lambda>acc eff. apply_effect eff acc)
                             (side_view editor mv\<lparr>doc := v\<rparr>) (effects tr)\<rparr>
                  (d\<lparr>mergeView := Some (side_view_update editor
                        (foldl (\<lambda>acc eff. apply_effect eff acc)
                           (side_view editor mv\<lparr>doc := v\<rparr>) (effects tr)) mv)\<rparr>))"
  using assms by (simp add: diff_dispatch_def view_dispatch_def Let_def)

lemma mergeView_initialized_diff_editor:
  "mergeView initialized_diff_editor = Some initialized_merge_view"
  by (simp add: initialized_diff_editor_def)

lemma when_changed_noop: "f c = Inr c \<Longrightarrow> when_changed b f c = Inr c"
  by (simp add: when_changed_def)

lemma diff_setValue_absent: "mergeView d = None \<Longrightarrow> diff_setValue editor x d = Inr d"
  by (simp add: diff_setValue_def)

lemma diff_setEditable_absent: "mergeView d = None \<Longrightarrow> diff_setEditable editor b d = Inr d"
  by (simp add: diff_setEditable_def diff_dispatch_absent)

lemma mergeView_reconfigure_absent: "mergeView d = None \<Longrightarrow> mergeView_reconfigure cfg d = Inr d"
  by (simp add: mergeView_reconfigure_def)

lemma diff_ngOnChanges_absent:
  assumes "mergeView d = None"
  shows "diff_ngOnChanges chg d = Inr d"
  using assms
  by (simp add: diff_ngOnChanges_def when_changed_noop diff_setValue_absent
      diff_setEditable_absent mergeView_reconfigure_absent)

section \<open>Writing the content from outside\<close>

text \<open>
  C4, as the code has it. On an initialized single editor, \<open>setValue x\<close> returns, and
  the document read afterwards is \<open>x\<close> with each line break written as one line feed:
  the engine stores a text by its lines. It is exactly \<open>x\<close> when \<open>x\<close> has no carriage
  return, whatever the document was before.
\<close>

theorem setValue_roundtrip:
  assumes "view c = Some s"
  shows "\<exists>c' s'. setValue x c = Inr c' \<and> view c' = Some s'
           \<and> doc s' = normalize_line_breaks x
           \<and> (CHR 0x0D \<notin> set x \<longrightarrow> doc s' = x)"
  using assms by (auto simp add: setValue_initialized normalize_line_breaks_id)

theorem setValue_roundtrip_witness:
  "view (initialized_editor\<lparr>view := Some (initialized_state\<lparr>doc := ''old''\<rparr>)\<rparr>)
     = Some (initialized_state\<lparr>doc := ''old''\<rparr>)
   \<and> CHR 0x0D \<notin> set ''hello''
   \<and> (\<exists>c' s'. setValue ''hello''
                 (initialized_editor\<lparr>view := Some (initialized_state\<lparr>doc := ''old''\<rparr>)\<rparr>) = Inr c'
         \<and> view c' = Some s' \<and> doc s' = ''hello'')
   \<and> (\<exists>c' s'. setValue crlf_text
                 (initialized_editor\<lparr>view := Some (initialized_state\<lparr>doc := ''old''\<rparr>)\<rparr>) = Inr c'
         \<and> view c' = Some s' \<and> doc s' = lf_text)"
proof -
  have h: "view (initialized_editor\<lparr>view := Some (initialized_state\<lparr>doc := ''old''\<rparr>)\<rparr>)
     = Some (initialized_state\<lparr>doc := ''old''\<rparr>)"
    by simp
  have n: "CHR 0x0D \<notin> set ''hello''"
    by simp
  from setValue_roundtrip [OF h, of "''hello''"] n
  have a: "\<exists>c' s'. setValue ''hello''
                 (initialized_editor\<lparr>view := Some (initialized_state\<lparr>doc := ''old''\<rparr>)\<rparr>) = Inr c'
         \<and> view c' = Some s' \<and> doc s' = ''hello''"
    by blast
  from setValue_roundtrip [OF h, of crlf_text]
  have b: "\<exists>c' s'. setValue crlf_text
                 (initialized_editor\<lparr>view := Some (initialized_state\<lparr>doc := ''old''\<rparr>)\<rparr>) = Inr c'
         \<and> view c' = Some s' \<and> doc s' = lf_text"
    by (simp only: normalize_crlf_text) blast
  show ?thesis using h n a b by blast
qed

text \<open>
  A value with a line break written as carriage return and line feed, set on the
  initialized default editor: the document read afterwards has a line feed there, and
  is not the value.
\<close>

theorem setValue_line_break_counterexample:
  "setValue crlf_text initialized_editor =
     Inr (initialized_editor
            \<lparr>view := Some (initialized_state\<lparr>doc := lf_text\<rparr>),
             trace := [OnChange lf_text, ChangeEmit lf_text]\<rparr>)
   \<and> lf_text \<noteq> crlf_text"
proof -
  have "crlf_text \<noteq> []"
    by (simp add: crlf_text_def)
  then have "setValue crlf_text initialized_editor =
     Inr (initialized_editor
            \<lparr>view := Some (initialized_state\<lparr>doc := lf_text\<rparr>),
             trace := [OnChange lf_text, ChangeEmit lf_text]\<rparr>)"
    using setValue_initialized [OF view_initialized_editor, of crlf_text]
    by (simp add: normalize_crlf_text trace_initialized_editor)
  moreover have "lf_text \<noteq> crlf_text"
    by (simp add: crlf_text_def lf_text_def)
  ultimately show ?thesis by simp
qed

text \<open>
  C1, as the code has it. \<open>setValue\<close> (also reached through \<open>writeValue\<close> and through
  a change of the \<open>value\<close> input) dispatches one replacement of the whole document
  whose only annotation excludes it from the undo history. It does not carry the
  \<open>External\<close> annotation, so unless the change is empty (an empty document replaced by
  the empty string) the update listener calls the on-change callback once and emits one
  change event, both with the new document, which is the value with each line break
  written as one line feed. What the listener ignores are the transactions that do
  carry \<open>External\<close> with a true value.
\<close>

theorem setValue_notifies_listener:
  assumes "view c = Some s"
  shows "annotations (setValue_transaction x s) = [AddToHistory False]
     \<and> writeValue x c = setValue x c
     \<and> ngOnChanges env {In_value} c = setValue (value_in c) c
     \<and> (\<exists>c' s'. setValue x c = Inr c' \<and> view c' = Some s'
           \<and> doc s' = normalize_line_breaks x
           \<and> trace c' = (if doc s = [] \<and> x = [] then trace c
                         else trace c @ [OnChange (doc s'), ChangeEmit (doc s')]))
     \<and> (\<forall>tr c'. annotation_External (annotations tr) = Some True \<longrightarrow>
           dispatch tr c = Inr c' \<longrightarrow> trace c' = trace c)"
proof -
  have "ngOnChanges env {In_value} c = setValue (value_in c) c"
    using assms by (simp add: ngOnChanges_def when_changed_def split: sum.splits)
  moreover have "writeValue x c = setValue x c"
    using assms by (simp add: writeValue_def)
  moreover have "\<exists>c' s'. setValue x c = Inr c' \<and> view c' = Some s'
           \<and> doc s' = normalize_line_breaks x
           \<and> trace c' = (if doc s = [] \<and> x = [] then trace c
                         else trace c @ [OnChange (doc s'), ChangeEmit (doc s')])"
    using assms by (simp add: setValue_initialized)
  ultimately show ?thesis
    using dispatch_external by (simp add: setValue_transaction_def)
qed

theorem setValue_notifies_listener_witness:
  "view initialized_editor = Some initialized_state
   \<and> annotations (setValue_transaction ''hello'' initialized_state) = [AddToHistory False]
   \<and> writeValue ''hello'' initialized_editor = setValue ''hello'' initialized_editor
   \<and> (\<exists>c'. setValue ''hello'' initialized_editor = Inr c'
         \<and> trace c' = [OnChange ''hello'', ChangeEmit ''hello''])
   \<and> annotation_External (annotations external_x) = Some True
   \<and> (\<exists>c'. dispatch external_x initialized_editor = Inr c' \<and> trace c' = [])"
proof -
  have ext: "annotation_External (annotations external_x) = Some True"
    by (simp add: external_x_def)
  have n: "normalize_line_breaks ''hello'' = ''hello''"
    by (simp add: normalize_line_breaks_id)
  from setValue_notifies_listener [OF view_initialized_editor, of "''hello''"]
  have a: "annotations (setValue_transaction ''hello'' initialized_state) = [AddToHistory False]"
    and b: "writeValue ''hello'' initialized_editor = setValue ''hello'' initialized_editor"
    and c: "\<exists>c' s'. setValue ''hello'' initialized_editor = Inr c' \<and> view c' = Some s'
           \<and> doc s' = normalize_line_breaks ''hello''
           \<and> trace c' = (if doc initialized_state = [] \<and> ''hello'' = []
                         then trace initialized_editor
                         else trace initialized_editor @ [OnChange (doc s'), ChangeEmit (doc s')])"
    and d: "\<forall>tr c'. annotation_External (annotations tr) = Some True \<longrightarrow>
           dispatch tr initialized_editor = Inr c' \<longrightarrow> trace c' = trace initialized_editor"
    by blast+
  from d ext dispatch_external_x trace_initialized_editor
  have e: "\<exists>c'. dispatch external_x initialized_editor = Inr c' \<and> trace c' = []"
    by metis
  from c have c': "\<exists>c'. setValue ''hello'' initialized_editor = Inr c'
         \<and> trace c' = [OnChange ''hello'', ChangeEmit ''hello'']"
    by (auto simp add: trace_initialized_editor n)
  show ?thesis using view_initialized_editor a b c' ext e by blast
qed

text \<open>
  The write \<open>setValue ''hello''\<close> on the initialized default editor: the callback is
  called and the event is emitted.
\<close>

theorem setValue_emits_counterexample:
  "setValue ''hello'' initialized_editor =
     Inr (initialized_editor
            \<lparr>view := Some (initialized_state\<lparr>doc := ''hello''\<rparr>),
             trace := [OnChange ''hello'', ChangeEmit ''hello'']\<rparr>)"
  using setValue_initialized [OF view_initialized_editor, of "''hello''"]
  by (simp add: trace_initialized_editor normalize_line_breaks_id)

section \<open>Edits made in the editor\<close>

text \<open>
  C9, as the code has it. A transaction that changes the document and carries no true
  \<open>External\<close> annotation makes the listener call the on-change callback with the new
  content and then emit it on \<open>change\<close>. The \<open>value\<close> input is a read-only input of
  the component; the listener does not write to it.
\<close>

theorem user_edit_forwarded:
  assumes "view c = Some s"
      and "apply_changes (changes tr) (doc s) = Inr d"
      and "\<not> changes_empty (changes tr)"
      and "annotation_External (annotations tr) \<noteq> Some True"
  shows "\<exists>c' s'. dispatch tr c = Inr c' \<and> view c' = Some s' \<and> doc s' = d
           \<and> trace c' = trace c @ [OnChange d, ChangeEmit d]
           \<and> value_in c' = value_in c"
  using dispatch_edit [OF assms] by simp

theorem user_edit_forwarded_witness:
  "view initialized_editor = Some initialized_state
   \<and> apply_changes (changes typed_x) (doc initialized_state) = Inr ''x''
   \<and> \<not> changes_empty (changes typed_x)
   \<and> annotation_External (annotations typed_x) \<noteq> Some True
   \<and> (\<exists>c' s'. dispatch typed_x initialized_editor = Inr c' \<and> view c' = Some s' \<and> doc s' = ''x''
           \<and> trace c' = trace initialized_editor @ [OnChange ''x'', ChangeEmit ''x'']
           \<and> value_in c' = value_in initialized_editor)"
proof -
  have h2: "apply_changes (changes typed_x) (doc initialized_state) = Inr ''x''"
    by (simp add: typed_x_def apply_changes_def initialized_state_def)
  have h3: "\<not> changes_empty (changes typed_x)"
    by (simp add: typed_x_def changes_empty_def)
  have h4: "annotation_External (annotations typed_x) \<noteq> Some True"
    by (simp add: typed_x_def)
  show ?thesis
    using view_initialized_editor h2 h3 h4
      user_edit_forwarded [OF view_initialized_editor h2 h3 h4]
    by blast
qed

text \<open>
  The user types \<open>x\<close> into the initialized default editor: the document is \<open>x\<close>, the
  callback and the event carry \<open>x\<close>, and the \<open>value\<close> input is still empty.
\<close>

theorem value_not_written_back_counterexample:
  "dispatch typed_x initialized_editor =
     Inr (initialized_editor
            \<lparr>view := Some (initialized_state\<lparr>doc := ''x''\<rparr>),
             trace := [OnChange ''x'', ChangeEmit ''x'']\<rparr>)
   \<and> value_in (initialized_editor
            \<lparr>view := Some (initialized_state\<lparr>doc := ''x''\<rparr>),
             trace := [OnChange ''x'', ChangeEmit ''x'']\<rparr>) = []"
  by (simp add: dispatch_def view_dispatch_def updateListener_def Let_def typed_x_def
      apply_changes_def changes_empty_def initialized_editor_def initialized_state_def
      default_editor_def)

section \<open>Reconfiguring one input\<close>


lemma find_JS:
  "find (language_matches platform ''JS'') [python, javascript] = Some javascript"
  using matches_JS by simp





section \<open>Languages\<close>

text \<open>
  C5, as the code has it. On an initialized single editor with a requested name that
  is neither empty nor \<open>plaintext\<close>, if the name matches some registered language up
  to letter case, by its name or by one of its aliases, then the lookup succeeds without
  console output and resolves to the first language of the registry that the name
  matches; the load of that language is started, and when it completes its support is
  the content of the language compartment. A later language that the name matches as
  well is not the one resolved.
\<close>

theorem setLanguage_resolves_first_match:
  assumes "view c = Some s"
      and "name \<noteq> []" and "name \<noteq> ''plaintext''"
      and "lang \<in> set (languages c)" and "language_matches env name lang"
  shows "\<exists>earlier found later.
        languages c = earlier @ found # later
      \<and> (\<forall>l \<in> set earlier. \<not> language_matches env name l)
      \<and> language_matches env name found
      \<and> find (language_matches env name) (languages c) = Some found
      \<and> findLanguage env name c = (Some found, c)
      \<and> setLanguage env name c = Inr (c\<lparr>pending_loads := pending_loads c @ [found]\<rparr>)
      \<and> language_loaded (length (pending_loads c))
            (c\<lparr>pending_loads := pending_loads c @ [found]\<rparr>)
          = Inr (c\<lparr>view := Some (s\<lparr>compartments := (compartments s)
                      (LanguageConf := Exts [LanguageSupport (ld_support found)])\<rparr>)\<rparr>)"
proof -
  from find_first_match [OF assms(4), of "language_matches env name"] assms(5)
  obtain earlier found later where f: "languages c = earlier @ found # later"
      "\<forall>l \<in> set earlier. \<not> language_matches env name l"
      "language_matches env name found"
      "find (language_matches env name) (languages c) = Some found"
    by blast
  note sl = setLanguage_found [OF assms(2,3) f(4)]
  have v: "view (c\<lparr>pending_loads := pending_loads c @ [found]\<rparr>) = Some s"
    using assms(1) by simp
  have ll: "language_loaded (length (pending_loads c))
            (c\<lparr>pending_loads := pending_loads c @ [found]\<rparr>)
          = Inr (c\<lparr>view := Some (s\<lparr>compartments := (compartments s)
                      (LanguageConf := Exts [LanguageSupport (ld_support found)])\<rparr>)\<rparr>)"
    using language_loaded_installs [OF v, of "length (pending_loads c)"] by simp
  show ?thesis
    using f sl ll by blast
qed

theorem setLanguage_resolves_first_match_witness:
  "view registry_editor = Some initialized_state
   \<and> javascript \<in> set (languages registry_editor)
   \<and> language_matches platform ''JS'' javascript
   \<and> findLanguage platform ''JS'' registry_editor = (Some javascript, registry_editor)
   \<and> setLanguage platform ''JS'' registry_editor
       = Inr (registry_editor\<lparr>pending_loads := [javascript]\<rparr>)
   \<and> language_loaded 0 (registry_editor\<lparr>pending_loads := [javascript]\<rparr>)
        = Inr (registry_editor\<lparr>view := Some javascript_state\<rparr>)
   \<and> view ecole_editor = Some initialized_state
   \<and> language_matches platform (CHR 0xE9 # ''cole'') ecole
   \<and> setLanguage platform (CHR 0xE9 # ''cole'') ecole_editor
       = Inr (ecole_editor\<lparr>pending_loads := [ecole]\<rparr>)"
proof -
  have h2: "''JS'' \<noteq> []" and h3: "''JS'' \<noteq> ''plaintext''"
    by simp_all
  have h4: "javascript \<in> set (languages registry_editor)"
    by (simp add: languages_registry_editor)
  have p: "pending_loads registry_editor = []"
    by (simp add: registry_editor_def pending_loads_initialized_editor)
  have fj: "find (language_matches platform ''JS'') (languages registry_editor) = Some javascript"
    using find_JS by (simp add: languages_registry_editor)
  from setLanguage_resolves_first_match [OF view_registry_editor h2 h3 h4 matches_JS(1)]
  obtain found where r:
      "find (language_matches platform ''JS'') (languages registry_editor) = Some found"
      "findLanguage platform ''JS'' registry_editor = (Some found, registry_editor)"
      "setLanguage platform ''JS'' registry_editor
         = Inr (registry_editor\<lparr>pending_loads := pending_loads registry_editor @ [found]\<rparr>)"
      "language_loaded (length (pending_loads registry_editor))
            (registry_editor\<lparr>pending_loads := pending_loads registry_editor @ [found]\<rparr>)
          = Inr (registry_editor\<lparr>view := Some (initialized_state\<lparr>compartments :=
                   (compartments initialized_state)
                      (LanguageConf := Exts [LanguageSupport (ld_support found)])\<rparr>)\<rparr>)"
    by blast
  from r(1) fj have "found = javascript"
    by simp
  with r(2,3,4) p
  have a: "findLanguage platform ''JS'' registry_editor = (Some javascript, registry_editor)"
    and b: "setLanguage platform ''JS'' registry_editor
       = Inr (registry_editor\<lparr>pending_loads := [javascript]\<rparr>)"
    and c: "language_loaded 0 (registry_editor\<lparr>pending_loads := [javascript]\<rparr>)
        = Inr (registry_editor\<lparr>view := Some javascript_state\<rparr>)"
    by (simp_all add: javascript_state_def javascript_def)
  have e1: "view ecole_editor = Some initialized_state"
    by (simp add: ecole_editor_def initialized_editor_def)
  have e2: "CHR 0xE9 # ''cole'' \<noteq> []" and e3: "CHR 0xE9 # ''cole'' \<noteq> ''plaintext''"
    by simp_all
  have e4: "ecole \<in> set (languages ecole_editor)"
    by (simp add: ecole_editor_def)
  have pe: "pending_loads ecole_editor = []"
    by (simp add: ecole_editor_def pending_loads_initialized_editor)
  have fe: "find (language_matches platform (CHR 0xE9 # ''cole'')) (languages ecole_editor)
              = Some ecole"
    using matches_ecole by (simp add: ecole_editor_def)
  from setLanguage_resolves_first_match [OF e1 e2 e3 e4 matches_ecole]
  obtain found' where r':
      "find (language_matches platform (CHR 0xE9 # ''cole'')) (languages ecole_editor)
         = Some found'"
      "setLanguage platform (CHR 0xE9 # ''cole'') ecole_editor
         = Inr (ecole_editor\<lparr>pending_loads := pending_loads ecole_editor @ [found']\<rparr>)"
    by blast
  from r'(1) fe have "found' = ecole"
    by simp
  with r'(2) pe
  have d: "setLanguage platform (CHR 0xE9 # ''cole'') ecole_editor
       = Inr (ecole_editor\<lparr>pending_loads := [ecole]\<rparr>)"
    by simp
  show ?thesis
    using view_registry_editor h4 matches_JS(1) a b c e1 matches_ecole d by blast
qed

text \<open>
  Two registered languages with the alias \<open>x\<close>, Alpha before Beta, and the request
  \<open>X\<close>: the name matches Beta, and Alpha is the language whose load is started.
\<close>

theorem later_match_not_resolved_counterexample:
  "beta \<in> set (languages alpha_beta_editor)
   \<and> language_matches platform ''X'' beta
   \<and> setLanguage platform ''X'' alpha_beta_editor
       = Inr (alpha_beta_editor\<lparr>pending_loads := [alpha]\<rparr>)
   \<and> alpha \<noteq> beta"
proof -
  have l: "languages alpha_beta_editor = [alpha, beta]"
    by (simp add: alpha_beta_editor_def)
  have f: "find (language_matches platform ''X'') (languages alpha_beta_editor) = Some alpha"
    using matches_X(1) by (simp add: l)
  have p: "pending_loads alpha_beta_editor = []"
    by (simp add: alpha_beta_editor_def pending_loads_initialized_editor)
  have "setLanguage platform ''X'' alpha_beta_editor
       = Inr (alpha_beta_editor\<lparr>pending_loads := [alpha]\<rparr>)"
    using setLanguage_found(2) [OF _ _ f] by (simp add: p)
  moreover have "alpha \<noteq> beta"
    by (simp add: alpha_def beta_def)
  ultimately show ?thesis
    using matches_X(2) by (simp add: l)
qed




text \<open>
  C7, as the code has it. A call of \<open>setLanguage\<close> with a name that is neither empty
  nor \<open>plaintext\<close> returns without an exception in each of these cases, and changes
  nothing of the component but its console output. With a non-empty registry none of
  whose languages the name matches, it reports the name as not found and lists the
  registered names. With an empty registry on an editor that has its view, it reports
  that no language is supported. With an empty registry before the view exists, it
  reports nothing.
\<close>

theorem setLanguage_failure_logged:
  assumes "name \<noteq> []" and "name \<noteq> ''plaintext''"
  shows "(languages c \<noteq> [] \<and> (\<forall>l \<in> set (languages c). \<not> language_matches env name l) \<longrightarrow>
            setLanguage env name c =
              Inr (c\<lparr>trace := trace c @
                     [ConsoleError [''Language not found:'', name],
                      ConsoleInfo [''Supported language names:'',
                                   join '', '' (map ld_name (languages c))]]\<rparr>))
       \<and> (languages c = [] \<and> view c \<noteq> None \<longrightarrow>
            setLanguage env name c =
              Inr (c\<lparr>trace := trace c @
                     [ConsoleError
                        [''No supported languages. Please set the `languages` prop at first.'']]\<rparr>))
       \<and> (languages c = [] \<and> view c = None \<longrightarrow> setLanguage env name c = Inr c)"
proof -
  have "find (language_matches env name) (languages c) = None"
    if "\<forall>l \<in> set (languages c). \<not> language_matches env name l"
    using that by (simp add: find_None_iff)
  then show ?thesis
    using setLanguage_not_found [OF assms, of c env] setLanguage_empty_registry [OF assms, of c env]
    by auto
qed

theorem setLanguage_failure_logged_witness:
  "languages javascript_editor \<noteq> []
   \<and> \<not> language_matches platform ''rust'' python
   \<and> \<not> language_matches platform ''rust'' javascript
   \<and> setLanguage platform ''rust'' javascript_editor
       = Inr (javascript_editor
                \<lparr>trace := trace javascript_editor @
                   [ConsoleError [''Language not found:'', ''rust''],
                    ConsoleInfo [''Supported language names:'', ''Python, JavaScript'']]\<rparr>)
   \<and> languages initialized_editor = [] \<and> view initialized_editor = Some initialized_state
   \<and> setLanguage platform ''rust'' initialized_editor
       = Inr (initialized_editor
                \<lparr>trace := trace initialized_editor @
                   [ConsoleError
                      [''No supported languages. Please set the `languages` prop at first.'']]\<rparr>)
   \<and> view default_editor = None
   \<and> setLanguage platform ''rust'' default_editor = Inr default_editor"
proof -
  have h1: "''rust'' \<noteq> []" and h2: "''rust'' \<noteq> ''plaintext''"
    by simp_all
  have ne: "languages javascript_editor \<noteq> []"
    by (simp add: languages_javascript_editor)
  have nm: "\<forall>l \<in> set (languages javascript_editor). \<not> language_matches platform ''rust'' l"
    using matches_rust by (simp add: languages_javascript_editor)
  have j: "join '', '' (map ld_name (languages javascript_editor)) = ''Python, JavaScript''"
    by (simp add: languages_javascript_editor python_def javascript_def)
  have e: "languages initialized_editor = []"
    by (simp add: initialized_editor_def default_editor_def)
  have d: "languages default_editor = []" "view default_editor = None"
    by (simp_all add: default_editor_def)
  have a: "setLanguage platform ''rust'' javascript_editor
       = Inr (javascript_editor
                \<lparr>trace := trace javascript_editor @
                   [ConsoleError [''Language not found:'', ''rust''],
                    ConsoleInfo [''Supported language names:'', ''Python, JavaScript'']]\<rparr>)"
    using setLanguage_failure_logged [OF h1 h2, of javascript_editor platform] ne nm
    by (simp only: j) blast
  have b: "setLanguage platform ''rust'' initialized_editor
       = Inr (initialized_editor
                \<lparr>trace := trace initialized_editor @
                   [ConsoleError
                      [''No supported languages. Please set the `languages` prop at first.'']]\<rparr>)"
    using setLanguage_failure_logged [OF h1 h2, of initialized_editor platform] e
      view_initialized_editor
    by simp
  have c: "setLanguage platform ''rust'' default_editor = Inr default_editor"
    using setLanguage_failure_logged [OF h1 h2, of default_editor platform] d
    by simp
  show ?thesis
    using ne matches_rust a e view_initialized_editor b d(2) c by blast
qed

text \<open>
  A name that is not registered, requested on the default editor before \<open>ngOnInit\<close>,
  while the registry is empty: the call returns and nothing is reported.
\<close>

theorem silent_before_init_counterexample:
  "languages default_editor = [] \<and> view default_editor = None
   \<and> setLanguage platform ''rust'' default_editor = Inr default_editor
   \<and> trace default_editor = []"
  by (simp add: setLanguage_def default_editor_def)

section \<open>The diff editor\<close>




text \<open>
  C10. On an initialized diff editor, a transaction that changes the document of a
  side and carries no true \<open>External\<close> annotation makes that side's listener call the
  on-change callback with the pair made of the side's new document and the stored value
  of the other side, store the new document in the side's value field, and emit it on
  the side's change output: \<open>{original: new, modified: stored}\<close> for side \<open>a\<close>,
  \<open>{original: stored, modified: new}\<close> for side \<open>b\<close>.
\<close>

theorem diff_edit_forwarded:
  assumes "mergeView d = Some mv"
      and "apply_changes (changes tr) (doc (side_view editor mv)) = Inr v"
      and "\<not> changes_empty (changes tr)"
      and "annotation_External (annotations tr) \<noteq> Some True"
  shows "\<exists>d' mv'. diff_dispatch editor tr d = Inr d'
      \<and> mergeView d' = Some mv' \<and> doc (side_view editor mv') = v
      \<and> (editor = Side_a \<longrightarrow>
            d_trace d' = d_trace d @ [DiffOnChange v (modifiedValue d), OriginalValueChange v]
            \<and> originalValue d' = v \<and> modifiedValue d' = modifiedValue d)
      \<and> (editor = Side_b \<longrightarrow>
            d_trace d' = d_trace d @ [DiffOnChange (originalValue d) v, ModifiedValueChange v]
            \<and> modifiedValue d' = v \<and> originalValue d' = originalValue d)"
  using diff_dispatch_edit [OF assms] assms(4)
  by (cases editor) (simp_all add: diff_updateListener_def Let_def)

theorem diff_edit_forwarded_witness:
  "mergeView initialized_diff_editor = Some initialized_merge_view
   \<and> apply_changes (changes typed_x) (doc (side_view Side_a initialized_merge_view)) = Inr ''xold''
   \<and> apply_changes (changes typed_x) (doc (side_view Side_b initialized_merge_view)) = Inr ''xnew''
   \<and> \<not> changes_empty (changes typed_x)
   \<and> annotation_External (annotations typed_x) \<noteq> Some True
   \<and> (\<exists>d'. diff_dispatch Side_a typed_x initialized_diff_editor = Inr d'
         \<and> d_trace d' = [DiffOnChange ''xold'' ''new'', OriginalValueChange ''xold'']
         \<and> originalValue d' = ''xold'' \<and> modifiedValue d' = ''new'')
   \<and> (\<exists>d'. diff_dispatch Side_b typed_x initialized_diff_editor = Inr d'
         \<and> d_trace d' = [DiffOnChange ''old'' ''xnew'', ModifiedValueChange ''xnew'']
         \<and> modifiedValue d' = ''xnew'' \<and> originalValue d' = ''old'')"
proof -
  have a: "apply_changes (changes typed_x) (doc (side_view Side_a initialized_merge_view)) = Inr ''xold''"
    by (simp add: typed_x_def apply_changes_def initialized_merge_view_def initialized_side_def)
  have b: "apply_changes (changes typed_x) (doc (side_view Side_b initialized_merge_view)) = Inr ''xnew''"
    by (simp add: typed_x_def apply_changes_def initialized_merge_view_def initialized_side_def)
  have h3: "\<not> changes_empty (changes typed_x)"
    by (simp add: typed_x_def changes_empty_def)
  have h4: "annotation_External (annotations typed_x) \<noteq> Some True"
    by (simp add: typed_x_def)
  have v: "d_trace initialized_diff_editor = []" "originalValue initialized_diff_editor = ''old''"
    "modifiedValue initialized_diff_editor = ''new''"
    by (simp_all add: initialized_diff_editor_def old_new_diff_editor_def default_diff_editor_def)
  have ra: "\<exists>d'. diff_dispatch Side_a typed_x initialized_diff_editor = Inr d'
         \<and> d_trace d' = [DiffOnChange ''xold'' ''new'', OriginalValueChange ''xold'']
         \<and> originalValue d' = ''xold'' \<and> modifiedValue d' = ''new''"
    using diff_edit_forwarded [OF mergeView_initialized_diff_editor a h3 h4] v by auto
  have rb: "\<exists>d'. diff_dispatch Side_b typed_x initialized_diff_editor = Inr d'
         \<and> d_trace d' = [DiffOnChange ''old'' ''xnew'', ModifiedValueChange ''xnew'']
         \<and> modifiedValue d' = ''xnew'' \<and> originalValue d' = ''old''"
    using diff_edit_forwarded [OF mergeView_initialized_diff_editor b h3 h4] v by auto
  show ?thesis
    using mergeView_initialized_diff_editor a b h3 h4 ra rb by blast
qed

section \<open>Before initialization\<close>

text \<open>
  C8, as the code has it. While no view exists, the entry points the host framework
  drives are guarded and do nothing: \<open>ngOnChanges\<close> and \<open>writeValue\<close> of both
  components. In the diff editor \<open>setValue\<close> and \<open>setEditable\<close> do nothing either, and
  \<open>setDisabledState\<close> only stores the flag. The setters of the single editor are not
  guarded: each of them reads a member of the absent view and raises a TypeError.
\<close>

theorem setters_before_initialization:
  assumes "view c = None" and "mergeView d = None"
  shows "ngOnChanges env chg c = Inr c \<and> writeValue x c = Inr c
     \<and> diff_ngOnChanges dchg d = Inr d \<and> diff_writeValue v d = Inr d
     \<and> diff_setValue editor x d = Inr d \<and> diff_setEditable editor b d = Inr d
     \<and> diff_setDisabledState b d = Inr (d\<lparr>d_disabled := b\<rparr>)
     \<and> setValue x c = Inl TypeError
     \<and> setEditable b c = Inl TypeError \<and> setReadonly b c = Inl TypeError
     \<and> setTheme t c = Inl TypeError \<and> setPlaceholder x c = Inl TypeError
     \<and> setIndentWithTab b c = Inl TypeError \<and> setIndentUnit env x c = Inl TypeError
     \<and> setLineWrapping b c = Inl TypeError \<and> setHighlightWhitespace b c = Inl TypeError
     \<and> setExtensions es c = Inl TypeError \<and> setLanguage env [] c = Inl TypeError
     \<and> setLanguage env ''plaintext'' c = Inl TypeError
     \<and> setDisabledState b c = Inl TypeError"
proof -
  have single: "ngOnChanges env chg c = Inr c" "writeValue x c = Inr c"
    using assms(1) by (simp_all add: ngOnChanges_def writeValue_def)
  have diff: "diff_ngOnChanges dchg d = Inr d" "diff_setValue editor x d = Inr d"
      "diff_setEditable editor b d = Inr d"
    using assms(2)
    by (simp_all add: diff_ngOnChanges_absent diff_setValue_absent diff_setEditable_absent)
  have dw: "diff_writeValue v d = Inr d"
    using assms(2) by (simp add: diff_writeValue_def split: option.splits prod.splits)
  have dd: "diff_setDisabledState b d = Inr (d\<lparr>d_disabled := b\<rparr>)"
    using assms(2) by (simp add: diff_setDisabledState_def diff_setEditable_absent)
  have eff: "\<And>effs c'. view c' = None \<Longrightarrow> dispatchEffects effs c' = Inl TypeError"
    by (simp add: dispatchEffects_def dispatch_absent)
  have raise: "setValue x c = Inl TypeError"
      "setEditable b c = Inl TypeError" "setReadonly b c = Inl TypeError"
      "setTheme t c = Inl TypeError" "setPlaceholder x c = Inl TypeError"
      "setIndentWithTab b c = Inl TypeError" "setIndentUnit env x c = Inl TypeError"
      "setLineWrapping b c = Inl TypeError" "setHighlightWhitespace b c = Inl TypeError"
      "setExtensions es c = Inl TypeError" "setLanguage env [] c = Inl TypeError"
      "setLanguage env ''plaintext'' c = Inl TypeError"
      "setDisabledState b c = Inl TypeError"
    using assms(1)
    by (simp_all add: setValue_def setEditable_def setReadonly_def setTheme_def
        setPlaceholder_def setIndentWithTab_def setIndentUnit_def setLineWrapping_def
        setHighlightWhitespace_def setExtensions_def setLanguage_def setDisabledState_def eff)
  show ?thesis
    using single diff dw dd raise by simp
qed

theorem setters_before_initialization_witness:
  "view default_editor = None \<and> mergeView default_diff_editor = None
   \<and> ngOnChanges platform {In_value, In_theme} default_editor = Inr default_editor
   \<and> writeValue ''hello'' default_editor = Inr default_editor
   \<and> diff_ngOnChanges {In_originalValue, In_diff_disabled} default_diff_editor
       = Inr default_diff_editor
   \<and> diff_writeValue (Some (''old'', ''new'')) default_diff_editor = Inr default_diff_editor
   \<and> diff_setValue Side_a ''hello'' default_diff_editor = Inr default_diff_editor
   \<and> diff_setEditable Side_a False default_diff_editor = Inr default_diff_editor
   \<and> diff_setDisabledState True default_diff_editor
       = Inr (default_diff_editor\<lparr>d_disabled := True\<rparr>)
   \<and> setEditable False default_editor = Inl TypeError
   \<and> setTheme Dark default_editor = Inl TypeError
   \<and> setIndentUnit platform ''ab'' default_editor = Inl TypeError
   \<and> setLanguage platform [] default_editor = Inl TypeError
   \<and> setLanguage platform ''plaintext'' default_editor = Inl TypeError
   \<and> setDisabledState True default_editor = Inl TypeError"
proof -
  have h1: "view default_editor = None"
    by (simp add: default_editor_def)
  have h2: "mergeView default_diff_editor = None"
    by (simp add: default_diff_editor_def)
  show ?thesis
    using h1 h2
      setters_before_initialization [OF h1 h2, of platform "{In_value, In_theme}" "''hello''"
        "{In_originalValue, In_diff_disabled}" "Some (''old'', ''new'')" Side_a False Dark]
      setters_before_initialization [OF h1 h2, of platform "{}" "''ab''" "{}" None Side_b True
        Light "[]"]
    by simp
qed

text \<open>\<open>setValue\<close> on the default single editor before \<open>ngOnInit\<close> raises.\<close>

theorem setValue_before_init_counterexample:
  "setValue ''hello'' default_editor = Inl TypeError"
  by (simp add: setValue_def default_editor_def)

end
